theory Spec2Isabelle
  imports Main
begin

section \<open>The blog application of src/main.py\<close>

text \<open>
  A shallow embedding of the Flask application in \<^verbatim>\<open>src/main.py\<close>: the three tables,
  the login session, and the request handlers \<^verbatim>\<open>register\<close>, \<^verbatim>\<open>login\<close>, \<^verbatim>\<open>logout\<close>,
  \<^verbatim>\<open>show_post\<close>, \<^verbatim>\<open>add_new_post\<close>, \<^verbatim>\<open>edit_post\<close> and \<^verbatim>\<open>delete_post\<close>.
  Every handler is a function from the request and the state before it to the response
  and the state after it. An exception of the source is a value: a handler that raises
  answers \<open>Failed e\<close> and leaves the state as it was at the raise.
\<close>

subsection \<open>Tables (lines 32-63)\<close>

text \<open>
  The mapped columns of the three model classes. The relationship attributes
  (\<^verbatim>\<open>author\<close>, \<^verbatim>\<open>posts\<close>, \<^verbatim>\<open>comments\<close>, \<^verbatim>\<open>post\<close>) are views of the foreign keys and
  hold no data of their own. Every column is annotated \<^verbatim>\<open>Mapped[int]\<close> or
  \<^verbatim>\<open>Mapped[str]\<close>, never \<^verbatim>\<open>Optional\<close>, so every column is NOT NULL.
\<close>

record user =
  u_id :: int
  name :: string
  email :: string
  password :: string

record blog_post =
  p_id :: int
  title :: string
  subtitle :: string
  date :: string
  body :: string
  img_url :: string
  p_user_id :: int

record comment =
  c_id :: int
  c_text :: string
  c_user_id :: int
  c_post_id :: int

record store =
  users :: "user list"
  blog_posts :: "blog_post list"
  comments :: "comment list"

datatype entity = UserE user | BlogPostE blog_post | CommentE comment

subsection \<open>Exceptions, responses, requests\<close>

text \<open>
  \<open>HTTPException n\<close> is what \<^verbatim>\<open>abort(n)\<close> raises; Flask answers it with status \<open>n\<close>.
  The other exceptions are not handled anywhere in the source, so Flask answers them
  with status 500.
\<close>

datatype pyexn = HTTPException nat | AttributeError | TypeError | IntegrityError | RuntimeError

datatype endpoint = Login | GetAllPosts | ShowPost int

datatype response =
    Render string "blog_post option"
  | Redirect endpoint
  | Failed pyexn

fun status_code :: "response \<Rightarrow> nat" where
  "status_code (Render _ _) = 200"
| "status_code (Redirect _) = 302"
| "status_code (Failed (HTTPException n)) = n"
| "status_code (Failed _) = 500"

datatype http_method = GET | POST

text \<open>
  A request carries its method, the submitted form data, and \<open>validates\<close>: the result of
  the form's \<^verbatim>\<open>validate()\<close>. The form classes and their validators live in
  \<^verbatim>\<open>forms.py\<close>, which is not part of the sources, so the verdict of the validators is an
  input. \<^verbatim>\<open>validate_on_submit()\<close> of Flask-WTF is "submitted and valid".
\<close>

record 'f request =
  req_method :: http_method
  validates :: bool
  form :: 'f

definition validate_on_submit :: "'f request \<Rightarrow> bool" where
  "validate_on_submit r = (req_method r = POST \<and> validates r)"

record register_form =
  rf_name :: string
  rf_email :: string
  rf_password :: string

record login_form =
  lf_email :: string
  lf_password :: string

record comment_form =
  cf_body :: string

record create_post_form =
  pf_title :: string
  pf_subtitle :: string
  pf_body :: string
  pf_img_url :: string

subsection \<open>The state a handler sees\<close>

text \<open>
  \<open>db\<close> is the database; \<open>session\<close> is the \<^verbatim>\<open>_user_id\<close> entry of the signed session
  cookie (absent when nobody is logged in); \<open>flashes\<close> are the flashed messages with
  their categories. Flask-Login writes \<^verbatim>\<open>str(user.id)\<close> into the cookie and
  \<^verbatim>\<open>user_loader\<close> reads it back with \<^verbatim>\<open>int\<close>; the cookie is signed, so the model keeps
  the integer itself.
\<close>

record ctx =
  db :: store
  session :: "int option"
  flashes :: "(string \<times> string) list"

definition flash :: "ctx \<Rightarrow> string \<Rightarrow> string \<Rightarrow> ctx" where
  "flash c message category = c\<lparr>flashes := flashes c @ [(message, category)]\<rparr>"

definition abort :: "nat \<Rightarrow> ctx \<Rightarrow> response \<times> ctx" where
  "abort n c = (Failed (HTTPException n), c)"

subsection \<open>Database access (lines 235-254)\<close>

text \<open>
  \<^verbatim>\<open>db.get(Model, id)\<close>: the row with that primary key, if there is one. Keys are taken
  within the range of the database's integer column; a URL id beyond it is not modelled.
\<close>

definition find_user :: "store \<Rightarrow> int \<Rightarrow> user option" where
  "find_user s i = find (\<lambda>u. u_id u = i) (users s)"

definition find_post :: "store \<Rightarrow> int \<Rightarrow> blog_post option" where
  "find_post s i = find (\<lambda>p. p_id p = i) (blog_posts s)"

definition get_or_404 :: "'a option \<Rightarrow> pyexn + 'a" where
  "get_or_404 r = (case r of None \<Rightarrow> Inl (HTTPException 404) | Some x \<Rightarrow> Inr x)"

definition get_user :: "store \<Rightarrow> int \<Rightarrow> pyexn + user" where
  "get_user s i = get_or_404 (find_user s i)"

definition get_users :: "store \<Rightarrow> user list" where
  "get_users s = sort_key u_id (users s)"

definition get_user_email :: "store \<Rightarrow> string \<Rightarrow> user option" where
  "get_user_email s e = find (\<lambda>u. email u = e) (users s)"

text \<open>
  \<^verbatim>\<open>db.session.add(x); db.session.commit()\<close>. The INSERT fails with IntegrityError, and
  the transaction is rolled back, when the primary key is taken or a \<^verbatim>\<open>unique=True\<close>
  column (\<^verbatim>\<open>users.email\<close>, \<^verbatim>\<open>blog_posts.title\<close>) already holds the value.
\<close>

definition add_commit :: "store \<Rightarrow> entity \<Rightarrow> pyexn + store" where
  "add_commit s x =
     (case x of
        UserE u \<Rightarrow>
          if u_id u \<in> set (map u_id (users s)) \<or> email u \<in> set (map email (users s))
          then Inl IntegrityError
          else Inr (s\<lparr>users := users s @ [u]\<rparr>)
      | BlogPostE p \<Rightarrow>
          if p_id p \<in> set (map p_id (blog_posts s)) \<or> title p \<in> set (map title (blog_posts s))
          then Inl IntegrityError
          else Inr (s\<lparr>blog_posts := blog_posts s @ [p]\<rparr>)
      | CommentE k \<Rightarrow>
          if c_id k \<in> set (map c_id (comments s))
          then Inl IntegrityError
          else Inr (s\<lparr>comments := comments s @ [k]\<rparr>))"

definition db_add :: "store \<Rightarrow> entity \<Rightarrow> pyexn + store" where
  "db_add s x = add_commit s x"

text \<open>
  The commit of \<^verbatim>\<open>edit_post\<close>: an UPDATE of the loaded row. It fails when the new title
  is the title of another post.
\<close>

definition update_commit :: "store \<Rightarrow> blog_post \<Rightarrow> pyexn + store" where
  "update_commit s p =
     (if title p \<in> set (map title (filter (\<lambda>q. p_id q \<noteq> p_id p) (blog_posts s)))
      then Inl IntegrityError
      else Inr (s\<lparr>blog_posts := map (\<lambda>q. if p_id q = p_id p then p else q) (blog_posts s)\<rparr>))"

text \<open>
  \<^verbatim>\<open>db.session.delete(post); db.session.commit()\<close>. The relationship
  \<^verbatim>\<open>BlogPost.comments\<close> (line 43) declares no delete cascade, so on the flush the ORM
  first detaches the post's comments by setting their \<^verbatim>\<open>post_id\<close> to NULL. That
  column is \<^verbatim>\<open>Mapped[int]\<close> (line 61), hence NOT NULL: if the post has a comment the
  UPDATE is refused with IntegrityError and nothing is deleted.
\<close>

definition delete_commit :: "store \<Rightarrow> blog_post \<Rightarrow> pyexn + store" where
  "delete_commit s p =
     (if list_ex (\<lambda>k. c_post_id k = p_id p) (comments s)
      then Inl IntegrityError
      else Inr (s\<lparr>blog_posts := filter (\<lambda>q. p_id q \<noteq> p_id p) (blog_posts s)\<rparr>))"

subsection \<open>Flask-Login: the principal (lines 9, 45, 69-70, 94-96)\<close>

text \<open>
  \<^verbatim>\<open>current_user\<close> is either Flask-Login's \<^verbatim>\<open>AnonymousUserMixin\<close> or a \<^verbatim>\<open>User\<close> row
  (\<^verbatim>\<open>User\<close> inherits \<^verbatim>\<open>UserMixin\<close>). Both mixins define \<^verbatim>\<open>is_anonymous\<close>,
  \<^verbatim>\<open>is_authenticated\<close> and \<^verbatim>\<open>is_active\<close> as properties, so reading one gives a
  \<^verbatim>\<open>bool\<close>. \<^verbatim>\<open>AnonymousUserMixin\<close> has no attribute \<^verbatim>\<open>id\<close>.
\<close>

datatype principal = AnonymousUser | LoggedIn user

definition principal_id :: "principal \<Rightarrow> pyexn + int" where
  "principal_id p = (case p of AnonymousUser \<Rightarrow> Inl AttributeError | LoggedIn u \<Rightarrow> Inr (u_id u))"

definition is_anonymous :: "principal \<Rightarrow> bool" where
  "is_anonymous p = (case p of AnonymousUser \<Rightarrow> True | LoggedIn _ \<Rightarrow> False)"

definition is_active :: "principal \<Rightarrow> bool" where
  "is_active p = (case p of AnonymousUser \<Rightarrow> False | LoggedIn _ \<Rightarrow> True)"

definition is_authenticated :: "principal \<Rightarrow> bool" where
  "is_authenticated p = (case p of AnonymousUser \<Rightarrow> False | LoggedIn _ \<Rightarrow> is_active p)"

text \<open>
  Calling a \<^verbatim>\<open>bool\<close>, as in \<^verbatim>\<open>current_user.is_anonymous()\<close>: Python raises
  \<^verbatim>\<open>TypeError: 'bool' object is not callable\<close>, whatever the value.
\<close>

definition call_bool :: "bool \<Rightarrow> pyexn + bool" where
  "call_bool b = Inl TypeError"

definition user_loader :: "store \<Rightarrow> int \<Rightarrow> pyexn + user option" where
  "user_loader s user_id =
     (case get_user s user_id of Inl e \<Rightarrow> Inl e | Inr u \<Rightarrow> Inr (Some u))"

text \<open>
  Flask-Login resolves \<^verbatim>\<open>current_user\<close> on first use in a request: no \<^verbatim>\<open>_user_id\<close> in
  the session gives the anonymous user; otherwise it calls the registered
  \<^verbatim>\<open>user_loader\<close>, and a result of \<^verbatim>\<open>None\<close> gives the anonymous user too. It does not
  catch what the loader raises.
\<close>

definition current_user :: "ctx \<Rightarrow> pyexn + principal" where
  "current_user c =
     (case session c of
        None \<Rightarrow> Inr AnonymousUser
      | Some raw \<Rightarrow>
          (case user_loader (db c) raw of
             Inl e \<Rightarrow> Inl e
           | Inr None \<Rightarrow> Inr AnonymousUser
           | Inr (Some u) \<Rightarrow> Inr (LoggedIn u)))"

text \<open>
  \<^verbatim>\<open>login_user(user)\<close>: refuses an inactive user with \<^verbatim>\<open>False\<close>, else stores the user's
  id in the session and returns \<^verbatim>\<open>True\<close>. \<^verbatim>\<open>logout_user()\<close> removes the id.
\<close>

definition login_user :: "user \<Rightarrow> int option \<Rightarrow> (pyexn + bool) \<times> int option" where
  "login_user u sess =
     (if \<not> is_active (LoggedIn u) then (Inr False, sess) else (Inr True, Some (u_id u)))"

definition logout_user :: "ctx \<Rightarrow> ctx" where
  "logout_user c = c\<lparr>session := None\<rparr>"

text \<open>
  \<^verbatim>\<open>LoginManager.init_app(app)\<close> (line 70) registers a template context processor that
  resolves \<^verbatim>\<open>current_user\<close> for every rendered template, so rendering raises what the
  loader raises.
\<close>

definition render_template :: "ctx \<Rightarrow> string \<Rightarrow> blog_post option \<Rightarrow> response \<times> ctx" where
  "render_template c template post =
     (case current_user c of
        Inl e \<Rightarrow> (Failed e, c)
      | Inr _ \<Rightarrow> (Render template post, c))"

text \<open>
  The source never sets \<^verbatim>\<open>login_manager.login_view\<close> (lines 69-70), so
  \<^verbatim>\<open>LoginManager.unauthorized()\<close> has no page to redirect to and aborts with 401.
\<close>

definition login_view :: "endpoint option" where
  "login_view = None"

definition unauthorized :: "ctx \<Rightarrow> response \<times> ctx" where
  "unauthorized c =
     (case login_view of
        None \<Rightarrow> abort 401 c
      | Some v \<Rightarrow> (Redirect v, flash c ''Please log in to access this page.'' ''message''))"

definition login_required :: "(ctx \<Rightarrow> response \<times> ctx) \<Rightarrow> ctx \<Rightarrow> response \<times> ctx" where
  "login_required func c =
     (case current_user c of
        Inl e \<Rightarrow> (Failed e, c)
      | Inr p \<Rightarrow> if \<not> is_authenticated p then unauthorized c else func c)"

subsection \<open>admin_only (lines 84-91)\<close>

definition admin_only :: "(ctx \<Rightarrow> response \<times> ctx) \<Rightarrow> ctx \<Rightarrow> response \<times> ctx" where
  "admin_only function c =
     (case current_user c of
        Inl e \<Rightarrow> (Failed e, c)
      | Inr p \<Rightarrow>
          (case principal_id p of
             Inl e \<Rightarrow> (Failed e, c)
           | Inr i \<Rightarrow> if i = 1 then function c else abort 403 c))"

subsection \<open>Password hashing (lines 228-233)\<close>

text \<open>
  \<^verbatim>\<open>generate_password_hash\<close> and \<^verbatim>\<open>check_password_hash\<close> are Werkzeug's; the handlers
  take them as parameters. The salt is drawn inside \<^verbatim>\<open>generate_password_hash\<close>, so the
  parameter stands for the function with the salt of this call.
\<close>

definition hash :: "(string \<Rightarrow> string \<Rightarrow> nat \<Rightarrow> string) \<Rightarrow> string \<Rightarrow> string" where
  "hash generate_password_hash string = generate_password_hash string ''pbkdf2:sha256'' 16"

subsection \<open>register (lines 98-118)\<close>

text \<open>
  \<open>new_id\<close> is the primary key the database gives the inserted row. \<open>register_with\<close>
  takes the session function as a parameter; \<open>register\<close> is the handler of the source,
  with Flask-Login's \<^verbatim>\<open>login_user\<close>.
\<close>

definition register_with ::
  "(user \<Rightarrow> int option \<Rightarrow> (pyexn + bool) \<times> int option) \<Rightarrow>
   (string \<Rightarrow> string \<Rightarrow> nat \<Rightarrow> string) \<Rightarrow> int \<Rightarrow> register_form request \<Rightarrow> ctx \<Rightarrow> response \<times> ctx" where
  "register_with login_user_fn gph new_id req c =
     (if validate_on_submit req then
        (let user = \<lparr>u_id = new_id, name = rf_name (form req), email = rf_email (form req),
                     password = hash gph (rf_password (form req))\<rparr>
         in if email user \<in> set (map email (get_users (db c)))
            then (Redirect Login, flash c ''The email is already registered.'' ''email'')
            else (case db_add (db c) (UserE user) of
                    Inl e \<Rightarrow> (Failed e, c)
                  | Inr s' \<Rightarrow>
                      (case login_user_fn user (session c) of
                         (Inl e, sess) \<Rightarrow> (Failed e, c\<lparr>db := s', session := sess\<rparr>)
                       | (Inr ok, sess) \<Rightarrow>
                           if ok then (Redirect GetAllPosts, c\<lparr>db := s', session := sess\<rparr>)
                           else render_template (c\<lparr>db := s', session := sess\<rparr>)
                                  ''register.jinja'' None)))
      else render_template c ''register.jinja'' None)"

definition register ::
  "(string \<Rightarrow> string \<Rightarrow> nat \<Rightarrow> string) \<Rightarrow> int \<Rightarrow> register_form request \<Rightarrow> ctx \<Rightarrow> response \<times> ctx" where
  "register = register_with login_user"

subsection \<open>login and logout (lines 120-142)\<close>

definition login ::
  "(string \<Rightarrow> string \<Rightarrow> bool) \<Rightarrow> login_form request \<Rightarrow> ctx \<Rightarrow> response \<times> ctx" where
  "login check_password_hash req c =
     (if validate_on_submit req then
        (case get_user_email (db c) (lf_email (form req)) of
           Some user \<Rightarrow>
             if check_password_hash (password user) (lf_password (form req)) then
               (case login_user user (session c) of
                  (Inl e, sess) \<Rightarrow> (Failed e, c\<lparr>session := sess\<rparr>)
                | (Inr ok, sess) \<Rightarrow>
                    if ok then (Redirect GetAllPosts, c\<lparr>session := sess\<rparr>)
                    else render_template (c\<lparr>session := sess\<rparr>) ''login.jinja'' None)
             else render_template (flash c ''Password invalid. Try again.'' ''warning'')
                    ''login.jinja'' None
         | None \<Rightarrow>
             render_template (flash c ''Email does not exist. Try again.'' ''warning'')
               ''login.jinja'' None)
      else render_template c ''login.jinja'' None)"

definition logout :: "ctx \<Rightarrow> response \<times> ctx" where
  "logout = login_required (\<lambda>c. (Redirect GetAllPosts, logout_user c))"

subsection \<open>show_post (lines 150-167)\<close>

definition show_post :: "int \<Rightarrow> int \<Rightarrow> comment_form request \<Rightarrow> ctx \<Rightarrow> response \<times> ctx" where
  "show_post new_id post_id req c =
     (case get_or_404 (find_post (db c) post_id) of
        Inl e \<Rightarrow> (Failed e, c)
      | Inr requested_post \<Rightarrow>
          if validate_on_submit req then
            (case current_user c of
               Inl e \<Rightarrow> (Failed e, c)
             | Inr p \<Rightarrow>
                 (case call_bool (is_anonymous p) of
                    Inl e \<Rightarrow> (Failed e, c)
                  | Inr anonymous \<Rightarrow>
                      if anonymous
                      then (Redirect Login, flash c ''You must be logged in to comment.'' ''email'')
                      else (case principal_id p of
                              Inl e \<Rightarrow> (Failed e, c)
                            | Inr uid \<Rightarrow>
                                (case db_add (db c)
                                        (CommentE \<lparr>c_id = new_id, c_text = cf_body (form req),
                                                   c_user_id = uid, c_post_id = post_id\<rparr>) of
                                   Inl e \<Rightarrow> (Failed e, c)
                                 | Inr s' \<Rightarrow>
                                     render_template (c\<lparr>db := s'\<rparr>) ''post.jinja''
                                       (Some requested_post)))))
          else render_template c ''post.jinja'' (Some requested_post))"

subsection \<open>add_new_post, edit_post, delete_post (lines 169-218)\<close>

text \<open>
  \<open>today\<close> is \<^verbatim>\<open>date.today().strftime("%B %d, %Y")\<close>: the server's clock is an input.
  \<^verbatim>\<open>author=current_user\<close> stores the principal's id in \<^verbatim>\<open>user_id\<close>.
\<close>

definition add_new_post ::
  "string \<Rightarrow> int \<Rightarrow> create_post_form request \<Rightarrow> ctx \<Rightarrow> response \<times> ctx" where
  "add_new_post today new_id req =
     admin_only (\<lambda>c.
       if validate_on_submit req then
         (case current_user c of
            Inl e \<Rightarrow> (Failed e, c)
          | Inr p \<Rightarrow>
              (case principal_id p of
                 Inl e \<Rightarrow> (Failed e, c)
               | Inr uid \<Rightarrow>
                   (let new_post = \<lparr>p_id = new_id, title = pf_title (form req),
                                     subtitle = pf_subtitle (form req), date = today,
                                     body = pf_body (form req), img_url = pf_img_url (form req),
                                     p_user_id = uid\<rparr>
                    in case add_commit (db c) (BlogPostE new_post) of
                         Inl e \<Rightarrow> (Failed e, c)
                       | Inr s' \<Rightarrow> (Redirect GetAllPosts, c\<lparr>db := s'\<rparr>))))
       else render_template c ''make-post.html'' None)"

definition edit_post :: "int \<Rightarrow> create_post_form request \<Rightarrow> ctx \<Rightarrow> response \<times> ctx" where
  "edit_post post_id req =
     admin_only (\<lambda>c.
       case get_or_404 (find_post (db c) post_id) of
         Inl e \<Rightarrow> (Failed e, c)
       | Inr post \<Rightarrow>
           if validate_on_submit req then
             (case current_user c of
                Inl e \<Rightarrow> (Failed e, c)
              | Inr p \<Rightarrow>
                  (case principal_id p of
                     Inl e \<Rightarrow> (Failed e, c)
                   | Inr uid \<Rightarrow>
                       (case update_commit (db c)
                               (post\<lparr>title := pf_title (form req),
                                     subtitle := pf_subtitle (form req),
                                     img_url := pf_img_url (form req),
                                     p_user_id := uid,
                                     body := pf_body (form req)\<rparr>) of
                          Inl e \<Rightarrow> (Failed e, c)
                        | Inr s' \<Rightarrow> (Redirect (ShowPost (p_id post)), c\<lparr>db := s'\<rparr>))))
           else render_template c ''make-post.html'' (Some post))"

definition delete_post :: "int \<Rightarrow> ctx \<Rightarrow> response \<times> ctx" where
  "delete_post post_id =
     admin_only (\<lambda>c.
       case get_or_404 (find_post (db c) post_id) of
         Inl e \<Rightarrow> (Failed e, c)
       | Inr post_to_delete \<Rightarrow>
           (case delete_commit (db c) post_to_delete of
              Inl e \<Rightarrow> (Failed e, c)
            | Inr s' \<Rightarrow> (Redirect GetAllPosts, c\<lparr>db := s'\<rparr>)))"

subsection \<open>Example states and requests\<close>

text \<open>
  A blog with two registered users, of whom Alice (id 1) is the administrator, and one
  post; the states of an anonymous visitor, of Alice, of Bob, and of a requester whose
  session names a user id that the database does not hold.
\<close>

definition alice :: user where
  "alice = \<lparr>u_id = 1, name = ''Alice'', email = ''alice@example.com'', password = ''digest-of-pw1''\<rparr>"

definition bob :: user where
  "bob = \<lparr>u_id = 2, name = ''Bob'', email = ''bob@example.com'', password = ''digest-of-pw2''\<rparr>"

definition hello_post :: blog_post where
  "hello_post = \<lparr>p_id = 1, title = ''Hello'', subtitle = ''First'', date = ''November 02, 2026'',
                  body = ''Welcome'', img_url = ''http://img/1.png'', p_user_id = 1\<rparr>"

definition nice_comment :: comment where
  "nice_comment = \<lparr>c_id = 1, c_text = ''Nice'', c_user_id = 2, c_post_id = 1\<rparr>"

definition blog :: store where
  "blog = \<lparr>users = [alice, bob], blog_posts = [hello_post], comments = []\<rparr>"

definition commented_blog :: store where
  "commented_blog = \<lparr>users = [alice, bob], blog_posts = [hello_post], comments = [nice_comment]\<rparr>"

definition visitor :: ctx where
  "visitor = \<lparr>db = blog, session = None, flashes = []\<rparr>"

definition as_alice :: ctx where
  "as_alice = \<lparr>db = blog, session = Some 1, flashes = []\<rparr>"

definition as_bob :: ctx where
  "as_bob = \<lparr>db = blog, session = Some 2, flashes = []\<rparr>"

definition stale_token :: ctx where
  "stale_token = \<lparr>db = blog, session = Some 7, flashes = []\<rparr>"

definition alice_commented :: ctx where
  "alice_commented = \<lparr>db = commented_blog, session = Some 1, flashes = []\<rparr>"

definition view_req :: "comment_form request" where
  "view_req = \<lparr>req_method = GET, validates = False, form = \<lparr>cf_body = []\<rparr>\<rparr>"

definition comment_req :: "comment_form request" where
  "comment_req = \<lparr>req_method = POST, validates = True, form = \<lparr>cf_body = ''Nice''\<rparr>\<rparr>"

definition post_req :: "create_post_form request" where
  "post_req = \<lparr>req_method = POST, validates = True,
               form = \<lparr>pf_title = ''Second'', pf_subtitle = ''More'', pf_body = ''Text'',
                        pf_img_url = ''http://img/2.png''\<rparr>\<rparr>"

text \<open>
  Stand-ins for Werkzeug's two functions, where the check accepts exactly the digest of the
  secret, and a \<^verbatim>\<open>login_user\<close> that raises, as Flask's session does when
  \<^verbatim>\<open>SECRET_KEY\<close> (read from the environment, line 20) is not set.
\<close>

definition toy_generate_password_hash :: "string \<Rightarrow> string \<Rightarrow> nat \<Rightarrow> string" where
  "toy_generate_password_hash secret meth salt_length = ''digest-of-'' @ secret"

definition toy_check_password_hash :: "string \<Rightarrow> string \<Rightarrow> bool" where
  "toy_check_password_hash digest secret = (digest = ''digest-of-'' @ secret)"

definition no_secret_key_login :: "user \<Rightarrow> int option \<Rightarrow> (pyexn + bool) \<times> int option" where
  "no_secret_key_login u sess = (Inl RuntimeError, sess)"

definition carol_req :: "register_form request" where
  "carol_req = \<lparr>req_method = POST, validates = True,
                form = \<lparr>rf_name = ''Carol'', rf_email = ''carol@example.com'', rf_password = ''pw3''\<rparr>\<rparr>"

definition bob_again_req :: "register_form request" where
  "bob_again_req = \<lparr>req_method = POST, validates = True,
                    form = \<lparr>rf_name = ''Bobby'', rf_email = ''bob@example.com'', rf_password = ''pw9''\<rparr>\<rparr>"

definition alice_login_req :: "login_form request" where
  "alice_login_req = \<lparr>req_method = POST, validates = True,
                      form = \<lparr>lf_email = ''alice@example.com'', lf_password = ''pw1''\<rparr>\<rparr>"

definition bob_login_req :: "login_form request" where
  "bob_login_req = \<lparr>req_method = POST, validates = True,
                    form = \<lparr>lf_email = ''bob@example.com'', lf_password = ''pw2''\<rparr>\<rparr>"

definition bob_typo_req :: "login_form request" where
  "bob_typo_req = \<lparr>req_method = POST, validates = True,
                   form = \<lparr>lf_email = ''bob@example.com'', lf_password = ''pw22''\<rparr>\<rparr>"

definition dave_login_req :: "login_form request" where
  "dave_login_req = \<lparr>req_method = POST, validates = True,
                     form = \<lparr>lf_email = ''dave@example.com'', lf_password = ''pw4''\<rparr>\<rparr>"

section \<open>Properties\<close>

subsection \<open>Facts about the store and the principal\<close>

lemmas blog_defs = alice_def bob_def hello_post_def blog_def visitor_def

lemmas core_defs =
  validate_on_submit_def flash_def abort_def find_user_def find_post_def get_or_404_def
  get_user_def user_loader_def current_user_def principal_id_def render_template_def

lemma emails_get_users: "set (map email (get_users s)) = set (map email (users s))"
  by (simp add: get_users_def)

lemma get_user_email_member: "get_user_email s e = Some u \<Longrightarrow> u \<in> set (users s) \<and> email u = e"
  by (auto simp: get_user_email_def find_Some_iff)

lemma find_user_of_member:
  assumes "u \<in> set (users s)"
  shows "\<exists>u'. find_user s (u_id u) = Some u' \<and> u_id u' = u_id u"
proof (cases "find_user s (u_id u)")
  case None
  with assms show ?thesis by (auto simp: find_user_def find_None_iff)
next
  case (Some u')
  then show ?thesis by (auto simp: find_user_def find_Some_iff)
qed

lemma current_user_of_member:
  assumes "u \<in> set (users (db c))"
  shows "\<exists>u'. current_user (c\<lparr>session := Some (u_id u)\<rparr>) = Inr (LoggedIn u') \<and> u_id u' = u_id u"
proof -
  from find_user_of_member [OF assms] obtain u'
    where "find_user (db c) (u_id u) = Some u'" and "u_id u' = u_id u" by blast
  then show ?thesis
    by (simp add: current_user_def user_loader_def get_user_def get_or_404_def)
qed

lemma user_loader_unknown_id:
  "find_user s i = None \<Longrightarrow> user_loader s i = Inl (HTTPException 404)"
  by (simp add: user_loader_def get_user_def get_or_404_def)

lemma current_user_unknown_id:
  "session c = Some i \<Longrightarrow> find_user (db c) i = None \<Longrightarrow> current_user c = Inl (HTTPException 404)"
  by (simp add: current_user_def user_loader_unknown_id)

lemma current_user_visitor: "current_user visitor = Inr AnonymousUser"
  by (simp add: current_user_def visitor_def)

lemma current_user_db_posts:
  "current_user (c\<lparr>db := (db c)\<lparr>blog_posts := ps\<rparr>\<rparr>) = current_user c"
  by (simp add: current_user_def user_loader_def get_user_def find_user_def split: option.splits)

lemma find_post_id: "find_post s i = Some p \<Longrightarrow> p_id p = i"
  by (auto simp: find_post_def find_Some_iff)

lemma find_append_fresh:
  "\<forall>x \<in> set xs. \<not> P x \<Longrightarrow> P y \<Longrightarrow> find P (xs @ [y]) = Some y"
  by (induction xs) auto

lemma find_post_appended:
  assumes "p_id p \<notin> set (map p_id (blog_posts s))"
  shows "find_post (s\<lparr>blog_posts := blog_posts s @ [p]\<rparr>) (p_id p) = Some p"
proof -
  have "\<forall>x \<in> set (blog_posts s). \<not> p_id x = p_id p"
    using assms by (metis image_eqI set_map)
  then show ?thesis
    by (simp add: find_post_def find_append_fresh)
qed

lemma find_post_removed:
  "find_post (s\<lparr>blog_posts := filter (\<lambda>q. p_id q \<noteq> i) (blog_posts s)\<rparr>) i = None"
  by (simp add: find_post_def find_None_iff)

subsection \<open>Authorization\<close>

lemma admin_only_anonymous:
  "current_user c = Inr AnonymousUser \<Longrightarrow> admin_only f c = (Failed AttributeError, c)"
  by (simp add: admin_only_def principal_id_def)

lemma admin_only_forbidden:
  "current_user c = Inr (LoggedIn u) \<Longrightarrow> u_id u \<noteq> 1 \<Longrightarrow>
   admin_only f c = (Failed (HTTPException 403), c)"
  by (simp add: admin_only_def principal_id_def abort_def)

lemma admin_only_admin:
  "current_user c = Inr (LoggedIn u) \<Longrightarrow> u_id u = 1 \<Longrightarrow> admin_only f c = f c"
  by (simp add: admin_only_def principal_id_def)

lemma admin_only_loader_error:
  "current_user c = Inl e \<Longrightarrow> admin_only f c = (Failed e, c)"
  by (simp add: admin_only_def)

lemma gated_handlers_forbidden:
  assumes "current_user c = Inr (LoggedIn u)" and "u_id u \<noteq> 1"
  shows "add_new_post today new_id req c = (Failed (HTTPException 403), c)
       \<and> edit_post i req c = (Failed (HTTPException 403), c)
       \<and> delete_post i c = (Failed (HTTPException 403), c)"
  using assms by (simp add: add_new_post_def edit_post_def delete_post_def admin_only_forbidden)

text \<open>
  Claim C1: every request to the create-post, edit-post or delete-post handler by a principal
  other than the user with id 1, the anonymous principal included, is answered with 403
  Forbidden and leaves the store unchanged.

  For a logged-in user with another id this is \<open>gated_handlers_forbidden\<close>. For the
  anonymous principal it fails: the wrapper reads \<^verbatim>\<open>current_user.id\<close> first, the
  anonymous user has no such attribute, and the request ends in AttributeError (status 500)
  instead of 403. The state is unchanged. The code at the failing input:
\<close>

theorem admin_only_anonymous_raises:
  "add_new_post ''November 03, 2026'' 2 post_req visitor = (Failed AttributeError, visitor)
   \<and> edit_post 1 post_req visitor = (Failed AttributeError, visitor)
   \<and> delete_post 1 visitor = (Failed AttributeError, visitor)
   \<and> status_code (Failed AttributeError) = 500"
  by (simp add: add_new_post_def edit_post_def delete_post_def admin_only_anonymous
      current_user_visitor)

subsection \<open>The session loader\<close>

text \<open>
  Claim C2: for a raw user id in an incoming session for which the store holds no user, the
  loader treats the session as invalid, the principal is the anonymous one, and no error
  reaches request handling.

  It fails for every unknown id (\<open>user_loader_unknown_id\<close>, \<open>current_user_unknown_id\<close>):
  \<^verbatim>\<open>user_loader\<close> goes through \<^verbatim>\<open>db.get_or_404\<close>, which raises 404 where the loader's
  own annotation \<^verbatim>\<open>User | None\<close> promises \<^verbatim>\<open>None\<close>. The code at the failing input, a
  session naming user 7 on a store with users 1 and 2:
\<close>

theorem user_loader_unknown_id_raises:
  "find_user blog 7 = None
   \<and> user_loader blog 7 = Inl (HTTPException 404)
   \<and> current_user stale_token = Inl (HTTPException 404)
   \<and> show_post 1 1 view_req stale_token = (Failed (HTTPException 404), stale_token)"
  by (simp add: blog_defs stale_token_def view_req_def core_defs show_post_def)

subsection \<open>Comments\<close>

lemma show_post_view:
  "find_post (db c) i = Some p \<Longrightarrow> \<not> validate_on_submit req \<Longrightarrow> current_user c = Inr pr \<Longrightarrow>
   show_post k i req c = (Render ''post.jinja'' (Some p), c)"
  by (simp add: show_post_def get_or_404_def render_template_def)

lemma show_post_not_found:
  "find_post (db c) i = None \<Longrightarrow> show_post k i req c = (Failed (HTTPException 404), c)"
  by (simp add: show_post_def get_or_404_def)

lemma show_post_submit_type_error:
  "find_post (db c) post_id = Some p \<Longrightarrow> validate_on_submit req \<Longrightarrow> current_user c = Inr pr \<Longrightarrow>
   show_post new_id post_id req c = (Failed TypeError, c)"
  by (simp add: show_post_def get_or_404_def call_bool_def)

text \<open>
  Claim C3: a comment submission (a valid POST to the show-post route) by the anonymous
  principal creates no comment row and is answered with a flash message and a redirect to the
  login page.

  No row is created, but the answer is neither: \<^verbatim>\<open>current_user.is_anonymous()\<close> calls the
  value of a property, a \<^verbatim>\<open>bool\<close>, and raises TypeError (status 500) before the flash
  (\<open>show_post_submit_type_error\<close>). The code at the failing input:
\<close>

theorem anonymous_comment_raises:
  "current_user visitor = Inr AnonymousUser
   \<and> show_post 1 1 comment_req visitor = (Failed TypeError, visitor)
   \<and> flashes visitor = [] \<and> status_code (Failed TypeError) = 500"
  by (simp add: blog_defs comment_req_def core_defs is_anonymous_def call_bool_def show_post_def)

text \<open>
  Claim C4: a comment submission (a valid POST to the show-post route of an existing post) by
  a logged-in principal persists a comment row with the submitted body, the principal as
  author and the requested post, and renders the post view again.

  It fails for the same reason as C3: the call \<^verbatim>\<open>current_user.is_anonymous()\<close> raises
  TypeError before \<^verbatim>\<open>db_add\<close>, so nothing is persisted. The code at the failing input:
\<close>

theorem logged_in_comment_raises:
  "current_user as_bob = Inr (LoggedIn bob)
   \<and> show_post 1 1 comment_req as_bob = (Failed TypeError, as_bob)
   \<and> comments (db as_bob) = []"
  by (simp add: blog_defs as_bob_def comment_req_def core_defs is_anonymous_def call_bool_def
      show_post_def)

subsection \<open>Registration\<close>

lemma register_created:
  assumes "validate_on_submit req"
    and "rf_email (form req) \<notin> set (map email (users (db c)))"
    and "new_id \<notin> set (map u_id (users (db c)))"
  shows "register gph new_id req c =
     (Redirect GetAllPosts,
      c\<lparr>db := (db c)\<lparr>users := users (db c) @
             [\<lparr>u_id = new_id, name = rf_name (form req), email = rf_email (form req),
               password = hash gph (rf_password (form req))\<rparr>]\<rparr>,
        session := Some new_id\<rparr>)"
  using assms
  by (simp add: register_def register_with_def emails_get_users db_add_def add_commit_def
      login_user_def is_active_def Let_def del: set_map)

lemma get_user_email_appended:
  assumes "email u \<notin> set (map email (users s))"
  shows "get_user_email (s\<lparr>users := users s @ [u]\<rparr>) (email u) = Some u"
proof -
  have "\<forall>x \<in> set (users s). \<not> email x = email u"
    using assms by (metis image_eqI set_map)
  then show ?thesis
    by (simp add: get_user_email_def find_append_fresh)
qed

text \<open>
  Claim C5: a registration whose email is the email of a registered user creates no second
  user row and is answered with a flash message and a redirect to login; the check compares
  the candidate's email with the existing users only, so a registration with a fresh email is
  never rejected as a duplicate.

  For a valid submission: if the email is registered, the answer is the redirect to login,
  the only change of the state is the flashed message, and the store is the same; if it is
  not, the answer is not that redirect, nothing is flashed, and when the key of the new row is
  unused the user is appended and logged in.
\<close>

theorem register_duplicate_email_check:
  assumes "validate_on_submit req"
  shows "(rf_email (form req) \<in> set (map email (users (db c))) \<longrightarrow>
            register gph new_id req c =
              (Redirect Login, flash c ''The email is already registered.'' ''email'')
            \<and> db (flash c ''The email is already registered.'' ''email'') = db c)
       \<and> (rf_email (form req) \<notin> set (map email (users (db c))) \<longrightarrow>
            fst (register gph new_id req c) \<noteq> Redirect Login
            \<and> flashes (snd (register gph new_id req c)) = flashes c
            \<and> (new_id \<notin> set (map u_id (users (db c))) \<longrightarrow>
                 register gph new_id req c =
                   (Redirect GetAllPosts,
                    c\<lparr>db := (db c)\<lparr>users := users (db c) @
                           [\<lparr>u_id = new_id, name = rf_name (form req), email = rf_email (form req),
                             password = hash gph (rf_password (form req))\<rparr>]\<rparr>,
                      session := Some new_id\<rparr>)))"
proof (intro conjI impI)
  assume dup: "rf_email (form req) \<in> set (map email (users (db c)))"
  with assms show "register gph new_id req c =
      (Redirect Login, flash c ''The email is already registered.'' ''email'')"
    by (simp add: register_def register_with_def emails_get_users Let_def del: set_map)
  show "db (flash c ''The email is already registered.'' ''email'') = db c"
    by (simp add: flash_def)
next
  assume fresh: "rf_email (form req) \<notin> set (map email (users (db c)))"
  with assms show "fst (register gph new_id req c) \<noteq> Redirect Login"
    by (simp add: register_def register_with_def emails_get_users db_add_def add_commit_def
        login_user_def is_active_def Let_def del: set_map)
  from assms fresh show "flashes (snd (register gph new_id req c)) = flashes c"
    by (simp add: register_def register_with_def emails_get_users db_add_def add_commit_def
        login_user_def is_active_def Let_def del: set_map)
  assume "new_id \<notin> set (map u_id (users (db c)))"
  with assms fresh show "register gph new_id req c =
      (Redirect GetAllPosts,
       c\<lparr>db := (db c)\<lparr>users := users (db c) @
              [\<lparr>u_id = new_id, name = rf_name (form req), email = rf_email (form req),
                password = hash gph (rf_password (form req))\<rparr>]\<rparr>,
         session := Some new_id\<rparr>)"
    by (simp add: register_def register_with_def emails_get_users db_add_def add_commit_def
        login_user_def is_active_def Let_def del: set_map)
qed

theorem register_duplicate_email_check_witness:
  "validate_on_submit bob_again_req
   \<and> rf_email (form bob_again_req) \<in> set (map email (users (db visitor)))
   \<and> register toy_generate_password_hash 3 bob_again_req visitor =
       (Redirect Login, visitor\<lparr>flashes := [(''The email is already registered.'', ''email'')]\<rparr>)
   \<and> validate_on_submit carol_req
   \<and> rf_email (form carol_req) \<notin> set (map email (users (db visitor)))
   \<and> register toy_generate_password_hash 3 carol_req visitor =
       (Redirect GetAllPosts,
        \<lparr>db = \<lparr>users = [alice, bob, \<lparr>u_id = 3, name = ''Carol'', email = ''carol@example.com'',
                                    password = ''digest-of-pw3''\<rparr>],
               blog_posts = [hello_post], comments = []\<rparr>,
         session = Some 3, flashes = []\<rparr>)"
proof -
  have v1: "validate_on_submit bob_again_req" and v2: "validate_on_submit carol_req"
    by (simp_all add: validate_on_submit_def bob_again_req_def carol_req_def)
  show ?thesis
    using register_duplicate_email_check [OF v1, of visitor toy_generate_password_hash 3]
      register_duplicate_email_check [OF v2, of visitor toy_generate_password_hash 3] v1 v2
    by (simp add: blog_defs bob_again_req_def carol_req_def toy_generate_password_hash_def
        flash_def hash_def)
qed

text \<open>
  Claim C10: on a registration with a fresh email the user row is committed before a session
  is established; if establishing the session fails, the row exists all the same.

  \<open>register_with\<close> is the handler with the session function \<open>lu\<close> as a parameter, which by
  its type cannot touch the store. Whatever \<open>lu\<close> does (return \<^verbatim>\<open>True\<close>, return
  \<^verbatim>\<open>False\<close>, raise), the store after the request holds the new row; the session is what
  \<open>lu\<close> left; and unless \<open>lu\<close> returned \<^verbatim>\<open>True\<close> the answer is not the redirect to the
  post list.
\<close>

theorem register_commits_before_session:
  assumes "validate_on_submit req"
    and "rf_email (form req) \<notin> set (map email (users (db c)))"
    and "new_id \<notin> set (map u_id (users (db c)))"
  shows "users (db (snd (register_with lu gph new_id req c))) =
           users (db c) @ [\<lparr>u_id = new_id, name = rf_name (form req), email = rf_email (form req),
                            password = hash gph (rf_password (form req))\<rparr>]
       \<and> session (snd (register_with lu gph new_id req c)) =
           snd (lu \<lparr>u_id = new_id, name = rf_name (form req), email = rf_email (form req),
                    password = hash gph (rf_password (form req))\<rparr> (session c))
       \<and> (fst (lu \<lparr>u_id = new_id, name = rf_name (form req), email = rf_email (form req),
                    password = hash gph (rf_password (form req))\<rparr> (session c)) \<noteq> Inr True
            \<longrightarrow> fst (register_with lu gph new_id req c) \<noteq> Redirect GetAllPosts)"
  using assms
  by (auto simp: register_with_def emails_get_users db_add_def add_commit_def Let_def
      render_template_def
      simp del: set_map split: sum.splits prod.splits)

theorem register_commits_before_session_witness:
  "validate_on_submit carol_req
   \<and> rf_email (form carol_req) \<notin> set (map email (users (db visitor)))
   \<and> register_with no_secret_key_login toy_generate_password_hash 3 carol_req visitor =
       (Failed RuntimeError,
        \<lparr>db = \<lparr>users = [alice, bob, \<lparr>u_id = 3, name = ''Carol'', email = ''carol@example.com'',
                                    password = ''digest-of-pw3''\<rparr>],
               blog_posts = [hello_post], comments = []\<rparr>,
         session = None, flashes = []\<rparr>)"
proof -
  have v: "validate_on_submit carol_req"
    by (simp add: validate_on_submit_def carol_req_def)
  have f: "rf_email (form carol_req) \<notin> set (map email (users (db visitor)))"
    and i: "3 \<notin> set (map u_id (users (db visitor)))"
    by (simp_all add: blog_defs carol_req_def)
  have r: "fst (register_with no_secret_key_login toy_generate_password_hash 3 carol_req visitor)
      = Failed RuntimeError"
    and fl: "flashes (snd (register_with no_secret_key_login toy_generate_password_hash 3
        carol_req visitor)) = []"
    and rest: "blog_posts (db (snd (register_with no_secret_key_login toy_generate_password_hash 3
        carol_req visitor))) = [hello_post]"
      "comments (db (snd (register_with no_secret_key_login toy_generate_password_hash 3
        carol_req visitor))) = []"
    by (simp_all add: register_with_def blog_defs carol_req_def toy_generate_password_hash_def
        no_secret_key_login_def core_defs get_users_def db_add_def add_commit_def hash_def)
  show ?thesis
    using register_commits_before_session [OF v f i, of no_secret_key_login
        toy_generate_password_hash] v f r fl rest
    by (simp add: blog_defs carol_req_def toy_generate_password_hash_def no_secret_key_login_def
        hash_def prod_eq_iff ctx.equality store.equality)
qed

subsection \<open>Login and logout\<close>

text \<open>
  A user who has just registered can log in with the same email and password, provided
  Werkzeug's check accepts the digest that its own hash function produced.
\<close>

lemma register_then_login:
  assumes "validate_on_submit req"
    and "rf_email (form req) \<notin> set (map email (users (db c)))"
    and "new_id \<notin> set (map u_id (users (db c)))"
    and "validate_on_submit lreq"
    and "lf_email (form lreq) = rf_email (form req)"
    and "lf_password (form lreq) = rf_password (form req)"
    and "chk (hash gph (rf_password (form req))) (rf_password (form req))"
  shows "fst (login chk lreq (logout_user (snd (register gph new_id req c)))) = Redirect GetAllPosts
       \<and> session (snd (login chk lreq (logout_user (snd (register gph new_id req c))))) = Some new_id"
proof -
  define u where "u = \<lparr>u_id = new_id, name = rf_name (form req), email = rf_email (form req),
               password = hash gph (rf_password (form req))\<rparr>"
  have reg: "register gph new_id req c =
      (Redirect GetAllPosts, c\<lparr>db := (db c)\<lparr>users := users (db c) @ [u]\<rparr>, session := Some new_id\<rparr>)"
    unfolding u_def by (rule register_created [OF assms(1-3)])
  have "email u \<notin> set (map email (users (db c)))"
    using assms(2) by (simp add: u_def)
  from get_user_email_appended [OF this]
  have found: "get_user_email ((db c)\<lparr>users := users (db c) @ [u]\<rparr>) (lf_email (form lreq)) = Some u"
    by (simp add: u_def assms(5))
  have ok: "chk (password u) (lf_password (form lreq))"
    using assms(6,7) by (simp add: u_def)
  show ?thesis
    using assms(4) found ok
    by (simp add: reg login_def logout_user_def login_user_def is_active_def u_def)
qed

text \<open>
  The lookup by email against the rows of the table. \<^verbatim>\<open>users.email\<close> is declared
  \<^verbatim>\<open>unique=True\<close> (line 50), so the emails of the rows are distinct; \<open>add_commit\<close> keeps
  them so. Under that constraint \<open>get_user_email\<close> finds every row by its email, wherever
  it stands in the table, and finds nothing for an email that no row has.
\<close>

lemma find_unique_key:
  "distinct (map f xs) \<Longrightarrow> x \<in> set xs \<Longrightarrow> find (\<lambda>y. f y = f x) xs = Some x"
  by (induction xs) force+

lemma get_user_email_registered:
  "distinct (map email (users s)) \<Longrightarrow> u \<in> set (users s) \<Longrightarrow> get_user_email s (email u) = Some u"
  by (simp add: get_user_email_def find_unique_key)

lemma get_user_email_unknown:
  "e \<notin> set (map email (users s)) \<Longrightarrow> get_user_email s e = None"
  by (auto simp: get_user_email_def find_None_iff)

lemma add_commit_emails_distinct:
  "distinct (map email (users s)) \<Longrightarrow> add_commit s x = Inr s' \<Longrightarrow> distinct (map email (users s'))"
  by (auto simp: add_commit_def split: entity.splits if_splits)

lemma login_accepted:
  assumes "validate_on_submit req"
    and "get_user_email (db c) (lf_email (form req)) = Some u"
    and "chk (password u) (lf_password (form req))"
  shows "login chk req c = (Redirect GetAllPosts, c\<lparr>session := Some (u_id u)\<rparr>)"
  using assms by (simp add: login_def login_user_def is_active_def)

lemma login_wrong_password:
  assumes "validate_on_submit req"
    and "get_user_email (db c) (lf_email (form req)) = Some u"
    and "\<not> chk (password u) (lf_password (form req))"
  shows "snd (login chk req c) = flash c ''Password invalid. Try again.'' ''warning''
       \<and> fst (login chk req c) \<noteq> Redirect GetAllPosts"
  using assms by (simp add: login_def render_template_def split: sum.splits)

lemma login_unknown_email:
  assumes "validate_on_submit req"
    and "get_user_email (db c) (lf_email (form req)) = None"
  shows "snd (login chk req c) = flash c ''Email does not exist. Try again.'' ''warning''
       \<and> fst (login chk req c) \<noteq> Redirect GetAllPosts"
  using assms by (simp add: login_def render_template_def split: sum.splits)

text \<open>
  Claim C6: for a registered email and password, a login with the correct password
  establishes a session whose principal has the user's id and redirects to the post list; a
  login with an incorrect password establishes no session and flashes the invalid-password
  message; a login with an email of no user establishes no session and flashes the
  email-does-not-exist message.

  "Registered" is a row \<open>u\<close> of the users table with the submitted email, and "no matching
  user" is that no row of the table has it; the emails of the table are distinct, as the
  unique constraint of the column has it. The password is correct when \<open>chk\<close>, Werkzeug's
  \<^verbatim>\<open>check_password_hash\<close>, accepts it against the digest of the row. In both failing
  cases the state after the request is the state before it with the message flashed, so the
  session is the one the request came with.
\<close>

theorem login_outcomes:
  assumes "validate_on_submit req" and "distinct (map email (users (db c)))"
  shows "(\<forall>u. u \<in> set (users (db c)) \<and> email u = lf_email (form req)
              \<and> chk (password u) (lf_password (form req)) \<longrightarrow>
            login chk req c = (Redirect GetAllPosts, c\<lparr>session := Some (u_id u)\<rparr>)
            \<and> (\<exists>u'. current_user (snd (login chk req c)) = Inr (LoggedIn u') \<and> u_id u' = u_id u))
       \<and> (\<forall>u. u \<in> set (users (db c)) \<and> email u = lf_email (form req)
              \<and> \<not> chk (password u) (lf_password (form req)) \<longrightarrow>
            snd (login chk req c) = flash c ''Password invalid. Try again.'' ''warning''
            \<and> session (snd (login chk req c)) = session c
            \<and> db (snd (login chk req c)) = db c
            \<and> fst (login chk req c) \<noteq> Redirect GetAllPosts)
       \<and> (lf_email (form req) \<notin> set (map email (users (db c))) \<longrightarrow>
            snd (login chk req c) = flash c ''Email does not exist. Try again.'' ''warning''
            \<and> session (snd (login chk req c)) = session c
            \<and> db (snd (login chk req c)) = db c
            \<and> fst (login chk req c) \<noteq> Redirect GetAllPosts)"
proof (intro conjI allI impI)
  fix u
  assume h: "u \<in> set (users (db c)) \<and> email u = lf_email (form req)
             \<and> chk (password u) (lf_password (form req))"
  then have found: "get_user_email (db c) (lf_email (form req)) = Some u"
    using get_user_email_registered [OF assms(2), of u] by simp
  from h have right: "chk (password u) (lf_password (form req))" by simp
  from assms(1) found right
  show ok: "login chk req c = (Redirect GetAllPosts, c\<lparr>session := Some (u_id u)\<rparr>)"
    by (rule login_accepted)
  from h have "u \<in> set (users (db c))" by simp
  from current_user_of_member [OF this] ok
  show "\<exists>u'. current_user (snd (login chk req c)) = Inr (LoggedIn u') \<and> u_id u' = u_id u"
    by simp
next
  fix u
  assume h: "u \<in> set (users (db c)) \<and> email u = lf_email (form req)
             \<and> \<not> chk (password u) (lf_password (form req))"
  then have found: "get_user_email (db c) (lf_email (form req)) = Some u"
    using get_user_email_registered [OF assms(2), of u] by simp
  from h have wrong: "\<not> chk (password u) (lf_password (form req))" by simp
  have r: "snd (login chk req c) = flash c ''Password invalid. Try again.'' ''warning''
       \<and> fst (login chk req c) \<noteq> Redirect GetAllPosts"
    using assms(1) found wrong by (rule login_wrong_password)
  from r show "snd (login chk req c) = flash c ''Password invalid. Try again.'' ''warning''"
    by simp
  from r show "session (snd (login chk req c)) = session c" by (simp add: flash_def)
  from r show "db (snd (login chk req c)) = db c" by (simp add: flash_def)
  from r show "fst (login chk req c) \<noteq> Redirect GetAllPosts" by simp
next
  assume "lf_email (form req) \<notin> set (map email (users (db c)))"
  then have "get_user_email (db c) (lf_email (form req)) = None"
    by (rule get_user_email_unknown)
  with assms(1) have r: "snd (login chk req c) = flash c ''Email does not exist. Try again.'' ''warning''
       \<and> fst (login chk req c) \<noteq> Redirect GetAllPosts"
    by (rule login_unknown_email)
  from r show "snd (login chk req c) = flash c ''Email does not exist. Try again.'' ''warning''"
    by simp
  from r show "session (snd (login chk req c)) = session c" by (simp add: flash_def)
  from r show "db (snd (login chk req c)) = db c" by (simp add: flash_def)
  from r show "fst (login chk req c) \<noteq> Redirect GetAllPosts" by simp
qed

theorem login_outcomes_witness:
  "distinct (map email (users (db visitor)))
   \<and> alice \<in> set (users (db visitor)) \<and> email alice = lf_email (form alice_login_req)
   \<and> toy_check_password_hash (password alice) (lf_password (form alice_login_req))
   \<and> login toy_check_password_hash alice_login_req visitor = (Redirect GetAllPosts, as_alice)
   \<and> bob \<in> set (users (db visitor)) \<and> email bob = lf_email (form bob_login_req)
   \<and> toy_check_password_hash (password bob) (lf_password (form bob_login_req))
   \<and> login toy_check_password_hash bob_login_req visitor = (Redirect GetAllPosts, as_bob)
   \<and> current_user as_bob = Inr (LoggedIn bob)
   \<and> email bob = lf_email (form bob_typo_req)
   \<and> \<not> toy_check_password_hash (password bob) (lf_password (form bob_typo_req))
   \<and> login toy_check_password_hash bob_typo_req visitor =
       (Render ''login.jinja'' None,
        visitor\<lparr>flashes := [(''Password invalid. Try again.'', ''warning'')]\<rparr>)
   \<and> lf_email (form dave_login_req) \<notin> set (map email (users (db visitor)))
   \<and> login toy_check_password_hash dave_login_req visitor =
       (Render ''login.jinja'' None,
        visitor\<lparr>flashes := [(''Email does not exist. Try again.'', ''warning'')]\<rparr>)"
proof -
  have v: "validate_on_submit alice_login_req" "validate_on_submit bob_login_req"
    "validate_on_submit bob_typo_req" "validate_on_submit dave_login_req"
    by (simp_all add: validate_on_submit_def alice_login_req_def bob_login_req_def
        bob_typo_req_def dave_login_req_def)
  have d: "distinct (map email (users (db visitor)))"
    by (simp add: blog_defs)
  have ha: "alice \<in> set (users (db visitor)) \<and> email alice = lf_email (form alice_login_req)
      \<and> toy_check_password_hash (password alice) (lf_password (form alice_login_req))"
    and hb: "bob \<in> set (users (db visitor)) \<and> email bob = lf_email (form bob_login_req)
      \<and> toy_check_password_hash (password bob) (lf_password (form bob_login_req))"
    and ht: "bob \<in> set (users (db visitor)) \<and> email bob = lf_email (form bob_typo_req)
      \<and> \<not> toy_check_password_hash (password bob) (lf_password (form bob_typo_req))"
    and hd: "lf_email (form dave_login_req) \<notin> set (map email (users (db visitor)))"
    by (simp_all add: blog_defs alice_login_req_def bob_login_req_def bob_typo_req_def
        dave_login_req_def toy_check_password_hash_def)
  have a: "login toy_check_password_hash alice_login_req visitor =
      (Redirect GetAllPosts, visitor\<lparr>session := Some (u_id alice)\<rparr>)"
    using login_outcomes [OF v(1) d, of toy_check_password_hash] ha by blast
  have b: "login toy_check_password_hash bob_login_req visitor =
      (Redirect GetAllPosts, visitor\<lparr>session := Some (u_id bob)\<rparr>)"
    using login_outcomes [OF v(2) d, of toy_check_password_hash] hb by blast
  have t: "snd (login toy_check_password_hash bob_typo_req visitor) =
      flash visitor ''Password invalid. Try again.'' ''warning''"
    using login_outcomes [OF v(3) d, of toy_check_password_hash] ht by blast
  have e: "snd (login toy_check_password_hash dave_login_req visitor) =
      flash visitor ''Email does not exist. Try again.'' ''warning''"
    using login_outcomes [OF v(4) d, of toy_check_password_hash] hd by blast
  have r: "fst (login toy_check_password_hash bob_typo_req visitor) = Render ''login.jinja'' None"
    "fst (login toy_check_password_hash dave_login_req visitor) = Render ''login.jinja'' None"
    by (simp_all add: login_def blog_defs bob_typo_req_def dave_login_req_def
        toy_check_password_hash_def core_defs get_user_email_def)
  have cu: "current_user as_bob = Inr (LoggedIn bob)"
    by (simp add: blog_defs as_bob_def core_defs)
  have s: "visitor\<lparr>session := Some (u_id alice)\<rparr> = as_alice"
    "visitor\<lparr>session := Some (u_id bob)\<rparr> = as_bob"
    "flash visitor ''Password invalid. Try again.'' ''warning'' =
       visitor\<lparr>flashes := [(''Password invalid. Try again.'', ''warning'')]\<rparr>"
    "flash visitor ''Email does not exist. Try again.'' ''warning'' =
       visitor\<lparr>flashes := [(''Email does not exist. Try again.'', ''warning'')]\<rparr>"
    by (simp_all add: blog_defs as_alice_def as_bob_def flash_def)
  from d ha hb ht hd a b t e r cu show ?thesis
    by (simp add: s prod_eq_iff)
qed

text \<open>
  Claim C9, as the code has it: a GET of /logout by a requester with a valid session clears
  the session and is answered with a 302 redirect to the post list; by a requester with no
  session it is answered with 401 Unauthorized and changes nothing.
\<close>

theorem logout_outcomes:
  "(current_user c = Inr (LoggedIn u) \<longrightarrow>
      logout c = (Redirect GetAllPosts, c\<lparr>session := None\<rparr>)
      \<and> current_user (c\<lparr>session := None\<rparr>) = Inr AnonymousUser
      \<and> status_code (fst (logout c)) = 302)
   \<and> (session c = None \<longrightarrow>
      logout c = (Failed (HTTPException 401), c) \<and> status_code (fst (logout c)) = 401)"
  by (simp add: logout_def login_required_def is_authenticated_def is_active_def logout_user_def
      current_user_def unauthorized_def login_view_def abort_def)

theorem logout_outcomes_witness:
  "current_user as_bob = Inr (LoggedIn bob)
   \<and> logout as_bob = (Redirect GetAllPosts, visitor)
   \<and> session visitor = None
   \<and> logout visitor = (Failed (HTTPException 401), visitor)"
proof -
  have cu: "current_user as_bob = Inr (LoggedIn bob)"
    by (simp add: blog_defs as_bob_def core_defs)
  show ?thesis
    using logout_outcomes [of as_bob bob] logout_outcomes [of visitor bob] cu
    by (simp add: as_bob_def visitor_def)
qed

text \<open>
  Claim C9 as stated has the requester with no valid session redirected to the login page.
  No login view is configured, so the anonymous visitor gets 401 instead.
\<close>

theorem logout_anonymous_is_not_redirected:
  "session visitor = None
   \<and> current_user visitor = Inr AnonymousUser
   \<and> logout visitor = (Failed (HTTPException 401), visitor)
   \<and> fst (logout visitor) \<noteq> Redirect Login
   \<and> status_code (fst (logout visitor)) = 401"
  by (simp add: logout_def blog_defs core_defs login_required_def is_authenticated_def
      unauthorized_def login_view_def)

subsection \<open>Creating and deleting posts\<close>

lemma add_new_post_created:
  assumes "validate_on_submit req" and "current_user c = Inr (LoggedIn a)" and "u_id a = 1"
    and "new_id \<notin> set (map p_id (blog_posts (db c)))"
    and "pf_title (form req) \<notin> set (map title (blog_posts (db c)))"
  shows "add_new_post today new_id req c =
     (Redirect GetAllPosts,
      c\<lparr>db := (db c)\<lparr>blog_posts := blog_posts (db c) @
          [\<lparr>p_id = new_id, title = pf_title (form req), subtitle = pf_subtitle (form req),
            date = today, body = pf_body (form req), img_url = pf_img_url (form req),
            p_user_id = u_id a\<rparr>]\<rparr>\<rparr>)"
  using assms
  by (simp add: add_new_post_def admin_only_def principal_id_def add_commit_def Let_def
      del: set_map)

lemma add_new_post_redirect_only_if:
  assumes "fst (add_new_post today new_id req c) = Redirect GetAllPosts"
  shows "validate_on_submit req \<and> (\<exists>a. current_user c = Inr (LoggedIn a) \<and> u_id a = 1)
     \<and> new_id \<notin> set (map p_id (blog_posts (db c)))
     \<and> pf_title (form req) \<notin> set (map title (blog_posts (db c)))"
  using assms
  by (auto simp: add_new_post_def admin_only_def principal_id_def add_commit_def Let_def
      abort_def render_template_def
      split: sum.splits principal.splits if_splits)

text \<open>
  Claim C7: after the administrator creates a post with submitted title, subtitle, body and
  image URL, fetching the post by its id returns a post with these fields, with the creating
  principal as author, and with the server's date stamp.

  The handler answers with the redirect to the post list exactly when it created the post.
  First conjunct: a valid submission by the administrator with an unused title (and a key
  the table does not hold) creates the post. Second conjunct: whenever the post was created,
  the row under its id has the submitted fields, the id of the current principal as
  \<open>p_user_id\<close> and \<open>today\<close> as date, and a view request of the show-post route renders
  that row.
\<close>

theorem add_new_post_round_trip:
  "(validate_on_submit req \<and> current_user c = Inr (LoggedIn a) \<and> u_id a = 1
      \<and> new_id \<notin> set (map p_id (blog_posts (db c)))
      \<and> pf_title (form req) \<notin> set (map title (blog_posts (db c)))
    \<longrightarrow> fst (add_new_post today new_id req c) = Redirect GetAllPosts)
   \<and> (fst (add_new_post today new_id req c) = Redirect GetAllPosts \<longrightarrow>
        (\<exists>a p. current_user c = Inr (LoggedIn a)
           \<and> find_post (db (snd (add_new_post today new_id req c))) new_id = Some p
           \<and> p_id p = new_id
           \<and> title p = pf_title (form req) \<and> subtitle p = pf_subtitle (form req)
           \<and> body p = pf_body (form req) \<and> img_url p = pf_img_url (form req)
           \<and> p_user_id p = u_id a
           \<and> date p = today
           \<and> (\<not> validate_on_submit view \<longrightarrow>
                show_post k new_id view (snd (add_new_post today new_id req c)) =
                  (Render ''post.jinja'' (Some p), snd (add_new_post today new_id req c)))))"
proof (intro conjI impI)
  assume "validate_on_submit req \<and> current_user c = Inr (LoggedIn a) \<and> u_id a = 1
      \<and> new_id \<notin> set (map p_id (blog_posts (db c)))
      \<and> pf_title (form req) \<notin> set (map title (blog_posts (db c)))"
  then show "fst (add_new_post today new_id req c) = Redirect GetAllPosts"
    by (simp add: add_new_post_created del: set_map)
next
  assume "fst (add_new_post today new_id req c) = Redirect GetAllPosts"
  from add_new_post_redirect_only_if [OF this] obtain a
    where v: "validate_on_submit req" and a: "current_user c = Inr (LoggedIn a)" "u_id a = 1"
      and fresh: "new_id \<notin> set (map p_id (blog_posts (db c)))"
        "pf_title (form req) \<notin> set (map title (blog_posts (db c)))"
    by blast
  define p where "p = \<lparr>p_id = new_id, title = pf_title (form req),
     subtitle = pf_subtitle (form req), date = today, body = pf_body (form req),
     img_url = pf_img_url (form req), p_user_id = u_id a\<rparr>"
  define c' where "c' = c\<lparr>db := (db c)\<lparr>blog_posts := blog_posts (db c) @ [p]\<rparr>\<rparr>"
  have res: "add_new_post today new_id req c = (Redirect GetAllPosts, c')"
    unfolding c'_def p_def by (rule add_new_post_created [OF v a fresh])
  have pid: "p_id p = new_id" by (simp add: p_def)
  have found: "find_post (db c') new_id = Some p"
    using find_post_appended [of p "db c"] fresh(1) by (simp add: c'_def pid del: set_map)
  have cu: "current_user c' = Inr (LoggedIn a)"
    unfolding c'_def by (simp add: current_user_db_posts a)
  have "\<not> validate_on_submit view \<longrightarrow>
      show_post k new_id view c' = (Render ''post.jinja'' (Some p), c')"
    using show_post_view [OF found _ cu] by blast
  with res found a show "\<exists>a p. current_user c = Inr (LoggedIn a)
           \<and> find_post (db (snd (add_new_post today new_id req c))) new_id = Some p
           \<and> p_id p = new_id
           \<and> title p = pf_title (form req) \<and> subtitle p = pf_subtitle (form req)
           \<and> body p = pf_body (form req) \<and> img_url p = pf_img_url (form req)
           \<and> p_user_id p = u_id a
           \<and> date p = today
           \<and> (\<not> validate_on_submit view \<longrightarrow>
                show_post k new_id view (snd (add_new_post today new_id req c)) =
                  (Render ''post.jinja'' (Some p), snd (add_new_post today new_id req c)))"
    by (intro exI [of _ a] exI [of _ p]) (simp add: p_def)
qed

theorem add_new_post_round_trip_witness:
  "validate_on_submit post_req \<and> current_user as_alice = Inr (LoggedIn alice) \<and> u_id alice = 1
   \<and> add_new_post ''November 03, 2026'' 2 post_req as_alice =
       (Redirect GetAllPosts,
        as_alice\<lparr>db := blog\<lparr>blog_posts := [hello_post,
           \<lparr>p_id = 2, title = ''Second'', subtitle = ''More'', date = ''November 03, 2026'',
             body = ''Text'', img_url = ''http://img/2.png'', p_user_id = 1\<rparr>]\<rparr>\<rparr>)
   \<and> \<not> validate_on_submit view_req
   \<and> fst (show_post 1 2 view_req (snd (add_new_post ''November 03, 2026'' 2 post_req as_alice))) =
       Render ''post.jinja''
         (Some \<lparr>p_id = 2, title = ''Second'', subtitle = ''More'', date = ''November 03, 2026'',
                 body = ''Text'', img_url = ''http://img/2.png'', p_user_id = 1\<rparr>)"
proof -
  have res: "add_new_post ''November 03, 2026'' 2 post_req as_alice =
       (Redirect GetAllPosts,
        as_alice\<lparr>db := blog\<lparr>blog_posts := [hello_post,
           \<lparr>p_id = 2, title = ''Second'', subtitle = ''More'', date = ''November 03, 2026'',
             body = ''Text'', img_url = ''http://img/2.png'', p_user_id = 1\<rparr>]\<rparr>\<rparr>)"
    by (simp add: add_new_post_def blog_defs as_alice_def post_req_def core_defs admin_only_def
        add_commit_def)
  have pre: "validate_on_submit post_req" "current_user as_alice = Inr (LoggedIn alice)"
    "u_id alice = 1" "\<not> validate_on_submit view_req"
    by (simp_all add: blog_defs as_alice_def post_req_def view_req_def core_defs)
  show ?thesis
    using add_new_post_round_trip [of post_req as_alice alice 2 "''November 03, 2026''" view_req 1]
      res pre
    by (auto simp: find_post_def blog_def hello_post_def as_alice_def)
qed

lemma delete_post_then_not_found:
  assumes "current_user c = Inr (LoggedIn a)" and "u_id a = 1"
    and "find_post (db c) i = Some p"
    and "\<not> list_ex (\<lambda>k. c_post_id k = i) (comments (db c))"
  shows "delete_post i c =
           (Redirect GetAllPosts,
            c\<lparr>db := (db c)\<lparr>blog_posts := filter (\<lambda>q. p_id q \<noteq> i) (blog_posts (db c))\<rparr>\<rparr>)
         \<and> find_post (db (snd (delete_post i c))) i = None
         \<and> show_post k i req (snd (delete_post i c)) =
             (Failed (HTTPException 404), snd (delete_post i c))"
proof -
  have pid: "p_id p = i" using assms(3) by (rule find_post_id)
  have res: "delete_post i c =
           (Redirect GetAllPosts,
            c\<lparr>db := (db c)\<lparr>blog_posts := filter (\<lambda>q. p_id q \<noteq> i) (blog_posts (db c))\<rparr>\<rparr>)"
    using assms pid
    by (simp add: delete_post_def admin_only_def principal_id_def get_or_404_def delete_commit_def)
  have gone: "find_post (db (snd (delete_post i c))) i = None"
    by (simp add: res find_post_removed)
  from res gone show_post_not_found [OF gone] show ?thesis by simp
qed

text \<open>
  Claim C8: after the administrator deletes an existing post through the delete route, a
  fetch of the post by id is answered with 404, and the delete is answered with a redirect to
  the post list.

  For a post without comments this is \<open>delete_post_then_not_found\<close>. For a post with a
  comment it fails: the commit raises IntegrityError (status 500), the post stays, and the
  show-post route still renders it. The code at the failing input:
\<close>

theorem delete_commented_post_raises:
  "find_post (db alice_commented) 1 = Some hello_post
   \<and> delete_post 1 alice_commented = (Failed IntegrityError, alice_commented)
   \<and> show_post 2 1 view_req alice_commented = (Render ''post.jinja'' (Some hello_post), alice_commented)"
  by (simp add: blog_defs alice_commented_def commented_blog_def nice_comment_def view_req_def
      core_defs admin_only_def delete_commit_def show_post_def delete_post_def)

end
